theory Spec2Isabelle
  imports Main "HOL-Library.Monad_Syntax"
begin

section \<open>The two request handlers of \<^verbatim>\<open>api/views.py\<close>\<close>

text \<open>
  The module under verification:
  \<^verbatim>\<open>
  def home(request):
      return JsonResponse({
          'message': 'Hello from DevOps Stage 1 - Django!',
          'status': 'success',
          'timestamp': datetime.now().isoformat()
      })

  def health(request):
      return JsonResponse({'status': 'healthy'})
  \<close>
  Both handlers are leaf functions over two library calls, \<^verbatim>\<open>datetime.now().isoformat()\<close>
  of the Python standard library and \<^verbatim>\<open>JsonResponse\<close> of Django. The library
  functions are embedded first, following \<^verbatim>\<open>Lib/datetime.py\<close> of CPython 3.11 and
  \<^verbatim>\<open>django/http/response.py\<close>, then the handlers.
\<close>

subsection \<open>Exceptions\<close>

text \<open>
  A raised exception is a value: every function that can raise returns \<open>fault + 'a\<close>,
  with \<open>Inl\<close> for the exception. \<open>OSError\<close> stands for a failing read of the
  system clock.
\<close>

datatype fault = OSError | ValueError | TypeError

subsection \<open>Decimal formatting: \<^verbatim>\<open>'%02d'\<close>, \<^verbatim>\<open>'%04d'\<close>, \<^verbatim>\<open>'{:06d}'\<close>\<close>

definition digit_char :: "nat \<Rightarrow> char" where
  "digit_char d = char_of (48 + d)"

definition is_ascii_digit :: "char \<Rightarrow> bool" where
  "is_ascii_digit c = (48 \<le> (of_char c :: nat) \<and> (of_char c :: nat) \<le> 57)"

definition digit_val :: "char \<Rightarrow> nat" where
  "digit_val c = of_char c - 48"

text \<open>\<^verbatim>\<open>str(n)\<close> for a non-negative integer: its decimal digits, most significant first.\<close>

fun str_nat :: "nat \<Rightarrow> string" where
  "str_nat n = (if n < 10 then [digit_char n] else str_nat (n div 10) @ [digit_char (n mod 10)])"

declare str_nat.simps [simp del]

text \<open>
  \<^verbatim>\<open>'%0wd' % n\<close> for a non-negative \<open>n\<close>: the decimal digits, padded on the left with
  zeros up to width \<open>w\<close>, and never truncated.
\<close>

definition fmt_d :: "nat \<Rightarrow> nat \<Rightarrow> string" where
  "fmt_d w n = replicate (w - length (str_nat n)) (CHR ''0'') @ str_nat n"

subsection \<open>\<^verbatim>\<open>datetime\<close> objects\<close>

text \<open>
  A reading of the local wall clock has the seven fields of a \<^verbatim>\<open>datetime\<close>. A
  \<^verbatim>\<open>datetime\<close> object adds \<^verbatim>\<open>tzinfo\<close>, which is \<^verbatim>\<open>None\<close> for a naive
  object; an aware object is modelled with a fixed offset from UTC, in microseconds (a
  \<^verbatim>\<open>timezone(timedelta(...))\<close>). A \<^verbatim>\<open>timedelta\<close> is its total number of
  microseconds.
\<close>

record clock =
  year :: nat
  month :: nat
  day :: nat
  hour :: nat
  minute :: nat
  second :: nat
  microsecond :: nat

record datetime = clock +
  tzinfo :: "int option"

text \<open>
  \<^verbatim>\<open>_check_date_fields\<close> and \<^verbatim>\<open>_check_time_fields\<close>: the range checks of the
  \<^verbatim>\<open>datetime\<close> constructor, which raises \<^verbatim>\<open>ValueError\<close> when one of them
  fails. Every \<^verbatim>\<open>datetime\<close> object that exists has passed them.
\<close>

definition DAYS_IN_MONTH :: "nat list" where
  "DAYS_IN_MONTH = [0, 31, 28, 31, 30, 31, 30, 31, 31, 30, 31, 30, 31]"

definition DAYS_BEFORE_MONTH :: "nat list" where
  "DAYS_BEFORE_MONTH = [0, 0, 31, 59, 90, 120, 151, 181, 212, 243, 273, 304, 334]"

definition is_leap :: "nat \<Rightarrow> bool" where
  "is_leap y = (y mod 4 = 0 \<and> (y mod 100 \<noteq> 0 \<or> y mod 400 = 0))"

text \<open>
  \<^verbatim>\<open>_days_in_month\<close> and \<^verbatim>\<open>_days_before_month\<close> assert \<open>1 \<le> month \<le> 12\<close>;
  their callers establish it first. Index 0 of both tables is a placeholder (\<open>-1\<close> in
  the source, never read).
\<close>

definition days_in_month :: "nat \<Rightarrow> nat \<Rightarrow> nat" where
  "days_in_month y m = (if m = 2 \<and> is_leap y then 29 else DAYS_IN_MONTH ! m)"

definition days_before_month :: "nat \<Rightarrow> nat \<Rightarrow> nat" where
  "days_before_month y m = DAYS_BEFORE_MONTH ! m + (if 2 < m \<and> is_leap y then 1 else 0)"

definition days_before_year :: "nat \<Rightarrow> int" where
  "days_before_year yr = (let y = int yr - 1 in y * 365 + y div 4 - y div 100 + y div 400)"

definition check_date_fields :: "nat \<Rightarrow> nat \<Rightarrow> nat \<Rightarrow> bool" where
  "check_date_fields y m d =
     (if \<not> (1 \<le> y \<and> y \<le> 9999) then False
      else if \<not> (1 \<le> m \<and> m \<le> 12) then False
      else 1 \<le> d \<and> d \<le> days_in_month y m)"

definition check_time_fields :: "nat \<Rightarrow> nat \<Rightarrow> nat \<Rightarrow> nat \<Rightarrow> bool" where
  "check_time_fields hh mm ss us =
     (if \<not> hh \<le> 23 then False
      else if \<not> mm \<le> 59 then False
      else if \<not> ss \<le> 59 then False
      else us \<le> 999999)"

definition valid_clock :: "'a clock_scheme \<Rightarrow> bool" where
  "valid_clock c =
     (check_date_fields (year c) (month c) (day c) \<and>
      check_time_fields (hour c) (minute c) (second c) (microsecond c))"

text \<open>The naive \<^verbatim>\<open>datetime\<close> of a clock reading: \<^verbatim>\<open>tzinfo\<close> is \<^verbatim>\<open>None\<close>.\<close>

definition naive :: "clock \<Rightarrow> datetime" where
  "naive c = \<lparr>year = year c, month = month c, day = day c, hour = hour c,
     minute = minute c, second = second c, microsecond = microsecond c, tzinfo = None\<rparr>"

subsection \<open>\<^verbatim>\<open>datetime.isoformat\<close>\<close>

text \<open>
  \<^verbatim>\<open>_format_time\<close> with \<^verbatim>\<open>timespec='auto'\<close>, the default the handler uses: the
  format is \<^verbatim>\<open>'microseconds'\<close> when \<open>us\<close> is non-zero and \<^verbatim>\<open>'seconds'\<close>
  otherwise.
\<close>

definition format_time :: "nat \<Rightarrow> nat \<Rightarrow> nat \<Rightarrow> nat \<Rightarrow> string" where
  "format_time hh mm ss us =
     (if us \<noteq> 0
      then fmt_d 2 hh @ '':'' @ fmt_d 2 mm @ '':'' @ fmt_d 2 ss @ ''.'' @ fmt_d 6 us
      else fmt_d 2 hh @ '':'' @ fmt_d 2 mm @ '':'' @ fmt_d 2 ss)"

text \<open>
  \<^verbatim>\<open>_format_offset\<close>: nothing for \<^verbatim>\<open>None\<close>, else sign, hours and minutes, then
  seconds and microseconds when they are not zero.
\<close>

definition format_offset :: "int option \<Rightarrow> string" where
  "format_offset off =
     (case off of
        None \<Rightarrow> []
      | Some d \<Rightarrow>
          (let sign = (if d < 0 then ''-'' else ''+'');
               a = (if d < 0 then - d else d);
               hh = a div 3600000000;
               r = a mod 3600000000;
               mm = r div 60000000;
               ss = r mod 60000000
           in sign @ fmt_d 2 (nat hh) @ '':'' @ fmt_d 2 (nat mm) @
              (if ss \<noteq> 0
               then '':'' @ fmt_d 2 (nat (ss div 1000000)) @
                    (if ss mod 1000000 \<noteq> 0 then ''.'' @ fmt_d 6 (nat (ss mod 1000000)) else [])
               else [])))"

definition utcoffset :: "datetime \<Rightarrow> int option" where
  "utcoffset self = tzinfo self"

text \<open>\<^verbatim>\<open>isoformat(sep='T', timespec='auto')\<close>, as the handler calls it.\<close>

definition isoformat :: "datetime \<Rightarrow> string" where
  "isoformat self =
     (let s = fmt_d 4 (year self) @ ''-'' @ fmt_d 2 (month self) @ ''-'' @ fmt_d 2 (day self) @ ''T'' @
              format_time (hour self) (minute self) (second self) (microsecond self);
          off = utcoffset self;
          tz = format_offset off
      in if tz \<noteq> [] then s @ tz else s)"

subsection \<open>\<^verbatim>\<open>JsonResponse\<close>\<close>

text \<open>
  The data of the two responses are dictionaries from strings to strings; a dictionary
  keeps its insertion order, so it is an association list. \<^verbatim>\<open>JsonResponse(data)\<close>
  with its default arguments raises \<^verbatim>\<open>TypeError\<close> when \<open>data\<close> is not a
  dictionary, and otherwise builds a response with status 200 and content type
  \<^verbatim>\<open>application/json\<close> whose content is \<^verbatim>\<open>json.dumps(data)\<close>. The response
  record holds the JSON value itself; its serialisation to text is not modelled.
\<close>

datatype json = JString string | JObject "(string \<times> json) list"

record http_response =
  status_code :: nat
  content_type :: string
  body :: json

fun JsonResponse :: "json \<Rightarrow> fault + http_response" where
  "JsonResponse (JObject kvs) =
     Inr \<lparr>status_code = 200, content_type = ''application/json'', body = JObject kvs\<rparr>"
| "JsonResponse (JString s) = Inl TypeError"

fun json_get :: "string \<Rightarrow> json \<Rightarrow> json option" where
  "json_get k (JObject kvs) = map_of kvs k"
| "json_get k (JString s) = None"

subsection \<open>Requests and the world\<close>

text \<open>
  A request, with the parts a handler could read. The world is everything outside the
  handler that it could read or write: the wall clock, whose read (\<^verbatim>\<open>datetime.now()\<close>)
  either raises or returns the current local time, and all other state (module globals,
  files, databases), of any type \<open>'s\<close>. A handler takes the world and returns its
  result together with the world it leaves behind.
\<close>

record request =
  http_method :: string
  path :: string
  headers :: "(string \<times> string) list"
  content :: string

record 's world =
  wall_clock :: "fault + clock"
  other_state :: 's

definition datetime_now :: "'s world \<Rightarrow> (fault + datetime) \<times> 's world" where
  "datetime_now w =
     (case wall_clock w of
        Inl e \<Rightarrow> (Inl e, w)
      | Inr c \<Rightarrow> (Inr (naive c), w))"

subsection \<open>The handlers\<close>

definition home :: "request \<Rightarrow> 's world \<Rightarrow> (fault + http_response) \<times> 's world" where
  "home request w =
     (case datetime_now w of
        (Inl e, w') \<Rightarrow> (Inl e, w')
      | (Inr now, w') \<Rightarrow>
          (JsonResponse (JObject
             [(''message'', JString ''Hello from DevOps Stage 1 - Django!''),
              (''status'', JString ''success''),
              (''timestamp'', JString (isoformat now))]), w'))"

definition health :: "request \<Rightarrow> 's world \<Rightarrow> (fault + http_response) \<times> 's world" where
  "health request w = (JsonResponse (JObject [(''status'', JString ''healthy'')]), w)"

subsection \<open>Sequences of invocations\<close>

text \<open>
  The framework calls a handler once per request. Between two calls the environment moves
  the wall clock; nothing else changes the world. An invocation names the endpoint, the
  request and what the clock read gives at that moment.
\<close>

datatype endpoint = Home | Health

fun dispatch :: "endpoint \<Rightarrow> request \<Rightarrow> 's world \<Rightarrow> (fault + http_response) \<times> 's world" where
  "dispatch Home request w = home request w"
| "dispatch Health request w = health request w"

fun serve ::
  "(endpoint \<times> request \<times> (fault + clock)) list \<Rightarrow> 's world \<Rightarrow>
     (fault + http_response) list \<times> 's world" where
  "serve [] w = ([], w)"
| "serve ((ep, request, t) # rest) w =
     (let (res, w1) = dispatch ep request (w\<lparr>wall_clock := t\<rparr>);
          (ress, w2) = serve rest w1
      in (res # ress, w2))"

text \<open>
  Two responses have the same structure when they agree on everything except the value
  stored under the key \<^verbatim>\<open>timestamp\<close>.
\<close>

definition blank_timestamp :: "http_response \<Rightarrow> http_response" where
  "blank_timestamp r =
     r\<lparr>body := (case body r of
          JObject kvs \<Rightarrow>
            JObject (map (\<lambda>(k, v). if k = ''timestamp'' then (k, JString []) else (k, v)) kvs)
        | JString s \<Rightarrow> JString s)\<rparr>"

definition same_structure :: "http_response \<Rightarrow> http_response \<Rightarrow> bool" where
  "same_structure a b = (blank_timestamp a = blank_timestamp b)"

subsection \<open>The shape of a timestamp\<close>

text \<open>
  A string matches a template when it has the template's length, an ASCII digit wherever
  the template has \<open>d\<close>, and the template's own character everywhere else.
\<close>

fun matches_template :: "string \<Rightarrow> string \<Rightarrow> bool" where
  "matches_template [] [] = True"
| "matches_template (p # ps) (c # cs) =
     ((if p = CHR ''d'' then is_ascii_digit c else c = p) \<and> matches_template ps cs)"
| "matches_template [] (c # cs) = False"
| "matches_template (p # ps) [] = False"

definition iso_seconds_form :: "string \<Rightarrow> bool" where
  "iso_seconds_form s = matches_template ''dddd-dd-ddTdd:dd:dd'' s"

definition iso_micros_form :: "string \<Rightarrow> bool" where
  "iso_micros_form s = matches_template ''dddd-dd-ddTdd:dd:dd.dddddd'' s"

text \<open>
  A timezone designator at the end of a timestamp: a trailing \<open>Z\<close>, or a UTC offset
  \<^verbatim>\<open>+hh:mm\<close> or \<^verbatim>\<open>-hh:mm\<close> as the last six characters.
\<close>

definition utc_offset_suffix :: "string \<Rightarrow> bool" where
  "utc_offset_suffix s =
     (let t = drop (length s - 6) s
      in matches_template ''+dd:dd'' t \<or> matches_template ''-dd:dd'' t)"

definition has_tz_designator :: "string \<Rightarrow> bool" where
  "has_tz_designator s = ((s \<noteq> [] \<and> last s = CHR ''Z'') \<or> utc_offset_suffix s)"

subsection \<open>Subtraction and comparison of \<^verbatim>\<open>datetime\<close> objects\<close>

text \<open>
  \<^verbatim>\<open>_ymd2ord\<close>: the ordinal of a date, 01-Jan-0001 being day 1, and
  \<^verbatim>\<open>datetime.__sub__\<close> on two \<^verbatim>\<open>datetime\<close> objects. The result is a
  \<^verbatim>\<open>timedelta\<close>, here its total number of microseconds; mixing a naive and an aware
  object raises \<^verbatim>\<open>TypeError\<close>.
\<close>

definition ymd2ord :: "nat \<Rightarrow> nat \<Rightarrow> nat \<Rightarrow> int" where
  "ymd2ord y m d = days_before_year y + int (days_before_month y m) + int d"

definition toordinal :: "'a clock_scheme \<Rightarrow> int" where
  "toordinal self = ymd2ord (year self) (month self) (day self)"

definition timedelta :: "int \<Rightarrow> int \<Rightarrow> int \<Rightarrow> int" where
  "timedelta days seconds microseconds = days * 86400000000 + seconds * 1000000 + microseconds"

definition datetime_sub :: "datetime \<Rightarrow> datetime \<Rightarrow> fault + int" where
  "datetime_sub self other =
     (let days1 = toordinal self;
          days2 = toordinal other;
          secs1 = int (second self) + int (minute self) * 60 + int (hour self) * 3600;
          secs2 = int (second other) + int (minute other) * 60 + int (hour other) * 3600;
          base = timedelta (days1 - days2) (secs1 - secs2)
                   (int (microsecond self) - int (microsecond other))
      in if tzinfo self = tzinfo other then Inr base
         else (case (utcoffset self, utcoffset other) of
                 (Some myoff, Some otoff) \<Rightarrow>
                   if myoff = otoff then Inr base else Inr (base + otoff - myoff)
               | _ \<Rightarrow> Inl TypeError))"

text \<open>
  Python compares tuples lexicographically: the first position where they differ decides,
  and a proper prefix is smaller. \<^verbatim>\<open>_cmp(x, y)\<close> is \<open>0\<close>, \<open>1\<close> or \<open>-1\<close>.
\<close>

fun tuple_lt :: "nat list \<Rightarrow> nat list \<Rightarrow> bool" where
  "tuple_lt [] [] = False"
| "tuple_lt [] (y # ys) = True"
| "tuple_lt (x # xs) [] = False"
| "tuple_lt (x # xs) (y # ys) = (if x = y then tuple_lt xs ys else x < y)"

definition cmp :: "nat list \<Rightarrow> nat list \<Rightarrow> int" where
  "cmp x y = (if x = y then 0 else if tuple_lt y x then 1 else - 1)"

definition fields :: "'a clock_scheme \<Rightarrow> nat list" where
  "fields self =
     [year self, month self, day self, hour self, minute self, second self, microsecond self]"

text \<open>
  \<^verbatim>\<open>datetime._cmp\<close> as the ordering operators call it, and \<^verbatim>\<open>__lt__\<close>. Two
  objects with the same \<^verbatim>\<open>tzinfo\<close> compare by their fields; a naive and an aware
  one do not compare (\<^verbatim>\<open>TypeError\<close>).
\<close>

definition datetime_cmp :: "datetime \<Rightarrow> datetime \<Rightarrow> fault + int" where
  "datetime_cmp self other =
     (if tzinfo self = tzinfo other then Inr (cmp (fields self) (fields other))
      else (case (utcoffset self, utcoffset other) of
              (Some myoff, Some otoff) \<Rightarrow>
                (case datetime_sub self other of
                   Inl e \<Rightarrow> Inl e
                 | Inr diff \<Rightarrow> Inr (if diff < 0 then - 1 else if diff \<noteq> 0 then 1 else 0))
            | _ \<Rightarrow> Inl TypeError))"

definition datetime_lt :: "datetime \<Rightarrow> datetime \<Rightarrow> fault + bool" where
  "datetime_lt self other =
     (case datetime_cmp self other of Inl e \<Rightarrow> Inl e | Inr r \<Rightarrow> Inr (r < 0))"

subsection \<open>Valid ISO 8601 timestamps\<close>

text \<open>
  What it means for a timestamp to be a valid ISO 8601 datetime is fixed here, on the side
  of the specification; the handlers contain no parser. \<open>iso8601_datetime\<close> reads the
  extended format of ISO 8601 for a calendar date and a time of day in complete
  representation, \<^verbatim>\<open>YYYY-MM-DDThh:mm:ss\<close>, optionally followed by a decimal sign
  (\<open>.\<close> or \<open>,\<close>) and six digits of fraction of a second. It accepts a string when it has
  this shape and its fields are a date of the calendar and a time of day: month in
  \<open>1..12\<close>, day within the month (leap years counted), hour at most \<open>23\<close>, minute and
  second at most \<open>59\<close>. The result is the clock value the string denotes.

  The condition is sufficient, not necessary: ISO 8601 has further representations (basic
  format, ordinal and week dates, reduced precision, zone designators), which are not
  read.
\<close>

definition parse_digits :: "nat \<Rightarrow> string \<Rightarrow> (nat \<times> string) option" where
  "parse_digits w s =
     (if w \<le> length s \<and> list_all is_ascii_digit (take w s)
      then Some (foldl (\<lambda>a c. 10 * a + digit_val c) 0 (take w s), drop w s)
      else None)"

fun expect :: "char \<Rightarrow> string \<Rightarrow> string option" where
  "expect c [] = None"
| "expect c (x # xs) = (if x = c then Some xs else None)"

fun parse_fraction :: "string \<Rightarrow> nat option" where
  "parse_fraction [] = Some 0"
| "parse_fraction (x # xs) =
     (if x = CHR ''.'' \<or> x = CHR '','' then
        (case parse_digits 6 xs of
           Some (us, rest) \<Rightarrow> if rest = [] then Some us else None
         | None \<Rightarrow> None)
      else None)"

definition iso8601_fields ::
  "string \<Rightarrow> (nat \<times> nat \<times> nat \<times> nat \<times> nat \<times> nat \<times> nat) option" where
  "iso8601_fields s0 = do {
     (y, s1) \<leftarrow> parse_digits 4 s0;
     s2 \<leftarrow> expect (CHR ''-'') s1;
     (m, s3) \<leftarrow> parse_digits 2 s2;
     s4 \<leftarrow> expect (CHR ''-'') s3;
     (d, s5) \<leftarrow> parse_digits 2 s4;
     s6 \<leftarrow> expect (CHR ''T'') s5;
     (hh, s7) \<leftarrow> parse_digits 2 s6;
     s8 \<leftarrow> expect (CHR '':'') s7;
     (mm, s9) \<leftarrow> parse_digits 2 s8;
     s10 \<leftarrow> expect (CHR '':'') s9;
     (ss, s11) \<leftarrow> parse_digits 2 s10;
     us \<leftarrow> parse_fraction s11;
     Some (y, m, d, hh, mm, ss, us)
   }"

definition iso8601_datetime :: "string \<Rightarrow> clock option" where
  "iso8601_datetime s =
     (case iso8601_fields s of
        None \<Rightarrow> None
      | Some (y, m, d, hh, mm, ss, us) \<Rightarrow>
          if check_date_fields y m d \<and> check_time_fields hh mm ss us
          then Some \<lparr>year = y, month = m, day = d, hour = hh, minute = mm, second = ss,
                     microsecond = us\<rparr>
          else None)"

subsection \<open>Fixed-width digit strings\<close>

text \<open>
  The last \<open>w\<close> decimal digits of \<open>n\<close>; this is what \<open>fmt_d w n\<close> writes when \<open>n\<close>
  has at most \<open>w\<close> digits. The three parts of a timestamp, digit by digit.
\<close>

primrec fixed_digits :: "nat \<Rightarrow> nat \<Rightarrow> string" where
  "fixed_digits 0 n = []"
| "fixed_digits (Suc w) n = fixed_digits w (n div 10) @ [digit_char (n mod 10)]"

definition date_text :: "'a clock_scheme \<Rightarrow> string" where
  "date_text c =
     [digit_char (year c div 1000 mod 10), digit_char (year c div 100 mod 10),
      digit_char (year c div 10 mod 10), digit_char (year c mod 10), CHR ''-'',
      digit_char (month c div 10), digit_char (month c mod 10), CHR ''-'',
      digit_char (day c div 10), digit_char (day c mod 10)]"

definition time_text :: "'a clock_scheme \<Rightarrow> string" where
  "time_text c =
     [digit_char (hour c div 10), digit_char (hour c mod 10), CHR '':'',
      digit_char (minute c div 10), digit_char (minute c mod 10), CHR '':'',
      digit_char (second c div 10), digit_char (second c mod 10)]"

definition fraction_text :: "'a clock_scheme \<Rightarrow> string" where
  "fraction_text c =
     [CHR ''.'', digit_char (microsecond c div 100000 mod 10),
      digit_char (microsecond c div 10000 mod 10), digit_char (microsecond c div 1000 mod 10),
      digit_char (microsecond c div 100 mod 10), digit_char (microsecond c div 10 mod 10),
      digit_char (microsecond c mod 10)]"

section \<open>Formatting lemmas\<close>

lemma digit_val_digit_char: "d < 10 \<Longrightarrow> digit_val (digit_char d) = d"
  by (simp add: digit_val_def digit_char_def)

lemma is_ascii_digit_digit_char: "d < 10 \<Longrightarrow> is_ascii_digit (digit_char d)"
  by (simp add: is_ascii_digit_def digit_char_def)

lemma digit_char_0: "digit_char 0 = CHR ''0''"
  by code_simp

lemma length_fixed_digits: "length (fixed_digits w n) = w"
  by (induction w arbitrary: n) simp_all

lemma fixed_digits_zero: "fixed_digits w 0 = replicate w (CHR ''0'')"
  by (induction w) (simp_all add: digit_char_0 replicate_append_same)

lemma length_str_nat: "n < 10 ^ Suc w \<Longrightarrow> length (str_nat n) \<le> Suc w"
proof (induction w arbitrary: n)
  case 0
  then show ?case by (simp add: str_nat.simps)
next
  case (Suc w)
  show ?case
  proof (cases "n < 10")
    case True
    then show ?thesis by (simp add: str_nat.simps)
  next
    case False
    from Suc.prems have "n div 10 < 10 ^ Suc w" by simp
    from Suc.IH [OF this] False show ?thesis
      by (subst str_nat.simps) simp
  qed
qed

lemma fmt_d_fixed: "n < 10 ^ w \<Longrightarrow> 0 < w \<Longrightarrow> fmt_d w n = fixed_digits w n"
proof (induction w arbitrary: n)
  case 0
  then show ?case by simp
next
  case (Suc w)
  show ?case
  proof (cases "n < 10")
    case True
    then show ?thesis
      by (simp add: fmt_d_def str_nat.simps fixed_digits_zero)
  next
    case False
    with Suc.prems have w: "0 < w" by (cases w) simp_all
    from Suc.prems have lt: "n div 10 < 10 ^ w" by simp
    from w obtain v where v: "w = Suc v" by (cases w) simp_all
    have len: "length (str_nat (n div 10)) \<le> w"
      using length_str_nat [of "n div 10" v] lt v by simp
    have "fmt_d (Suc w) n = fmt_d w (n div 10) @ [digit_char (n mod 10)]"
      using False len by (simp add: fmt_d_def str_nat.simps [of n] Suc_diff_le)
    then show ?thesis using Suc.IH [OF lt w] by simp
  qed
qed

lemma fixed_digits_numeral:
  "fixed_digits (numeral k) n = fixed_digits (pred_numeral k) (n div 10) @ [digit_char (n mod 10)]"
  by (simp only: numeral_eq_Suc [of k] fixed_digits.simps)

lemma fmt_d_2: "n < 100 \<Longrightarrow> fmt_d 2 n = [digit_char (n div 10), digit_char (n mod 10)]"
  using fmt_d_fixed [of n 2] by (simp add: fixed_digits_numeral)

lemma fmt_d_4:
  "n < 10000 \<Longrightarrow> fmt_d 4 n =
     [digit_char (n div 1000 mod 10), digit_char (n div 100 mod 10),
      digit_char (n div 10 mod 10), digit_char (n mod 10)]"
  using fmt_d_fixed [of n 4] by (simp add: fixed_digits_numeral div_mult2_eq [symmetric])

lemma fmt_d_6:
  "n < 1000000 \<Longrightarrow> fmt_d 6 n =
     [digit_char (n div 100000 mod 10), digit_char (n div 10000 mod 10),
      digit_char (n div 1000 mod 10), digit_char (n div 100 mod 10),
      digit_char (n div 10 mod 10), digit_char (n mod 10)]"
  using fmt_d_fixed [of n 6] by (simp add: fixed_digits_numeral div_mult2_eq [symmetric])

lemma month_cases:
  "1 \<le> m \<Longrightarrow> m \<le> 12 \<Longrightarrow>
   m = 1 \<or> m = 2 \<or> m = 3 \<or> m = 4 \<or> m = 5 \<or> m = 6 \<or> m = 7 \<or> m = 8 \<or> m = 9 \<or> m = 10 \<or>
   m = 11 \<or> m = (12::nat)"
  by arith

lemma days_in_month_le: "1 \<le> m \<Longrightarrow> m \<le> 12 \<Longrightarrow> days_in_month y m \<le> 31"
  using month_cases [of m] by (auto simp: days_in_month_def DAYS_IN_MONTH_def)

lemma valid_clock_bounds:
  assumes "valid_clock c"
  shows "1 \<le> year c" "year c \<le> 9999" "1 \<le> month c" "month c \<le> 12"
    "1 \<le> day c" "day c \<le> days_in_month (year c) (month c)" "day c \<le> 31"
    "hour c \<le> 23" "minute c \<le> 59" "second c \<le> 59" "microsecond c \<le> 999999"
proof -
  from assms have d: "check_date_fields (year c) (month c) (day c)"
    and t: "check_time_fields (hour c) (minute c) (second c) (microsecond c)"
    by (simp_all add: valid_clock_def)
  from d show y: "1 \<le> year c" "year c \<le> 9999" and m: "1 \<le> month c" "month c \<le> 12"
    and dd: "1 \<le> day c" "day c \<le> days_in_month (year c) (month c)"
    by (simp_all add: check_date_fields_def split: if_splits)
  from dd(2) days_in_month_le [OF m] show "day c \<le> 31" by (rule order_trans)
  from t show "hour c \<le> 23" "minute c \<le> 59" "second c \<le> 59" "microsecond c \<le> 999999"
    by (simp_all add: check_time_fields_def split: if_splits)
qed

lemma isoformat_naive:
  assumes "valid_clock c"
  shows "isoformat (naive c) =
     date_text c @ ''T'' @ time_text c @ (if microsecond c = 0 then [] else fraction_text c)"
proof -
  note b = valid_clock_bounds [OF assms]
  have "fmt_d 4 (year c) = take 4 (date_text c)"
    using b(2) by (simp add: fmt_d_4 date_text_def)
  moreover have "fmt_d 2 (month c) = take 2 (drop 5 (date_text c))"
    using b(4) by (simp add: fmt_d_2 date_text_def)
  moreover have "fmt_d 2 (day c) = drop 8 (date_text c)"
    using b(7) by (simp add: fmt_d_2 date_text_def)
  moreover have "fmt_d 2 (hour c) = take 2 (time_text c)"
    using b(8) by (simp add: fmt_d_2 time_text_def)
  moreover have "fmt_d 2 (minute c) = take 2 (drop 3 (time_text c))"
    using b(9) by (simp add: fmt_d_2 time_text_def)
  moreover have "fmt_d 2 (second c) = drop 6 (time_text c)"
    using b(10) by (simp add: fmt_d_2 time_text_def)
  moreover have "fmt_d 6 (microsecond c) = tl (fraction_text c)"
    using b(11) by (simp add: fmt_d_6 fraction_text_def)
  ultimately show ?thesis
    by (simp add: isoformat_def naive_def format_time_def utcoffset_def format_offset_def
        date_text_def time_text_def fraction_text_def)
qed

lemma datetime_now_ok: "wall_clock w = Inr c \<Longrightarrow> datetime_now w = (Inr (naive c), w)"
  by (simp add: datetime_now_def)

lemma home_ok:
  "wall_clock w = Inr c \<Longrightarrow>
   home request w =
     (Inr \<lparr>status_code = 200, content_type = ''application/json'',
           body = JObject [(''message'', JString ''Hello from DevOps Stage 1 - Django!''),
                           (''status'', JString ''success''),
                           (''timestamp'', JString (isoformat (naive c)))]\<rparr>, w)"
  by (simp add: home_def datetime_now_def)

lemma home_fault: "wall_clock w = Inl e \<Longrightarrow> home request w = (Inl e, w)"
  by (simp add: home_def datetime_now_def)

lemma health_ok:
  "health request w =
     (Inr \<lparr>status_code = 200, content_type = ''application/json'',
           body = JObject [(''status'', JString ''healthy'')]\<rparr>, w)"
  by (simp add: health_def)

lemma digit_not_punct:
  "is_ascii_digit c \<Longrightarrow>
   c \<noteq> CHR ''+'' \<and> c \<noteq> CHR ''-'' \<and> c \<noteq> CHR ''Z'' \<and> c \<noteq> CHR '':'' \<and> c \<noteq> CHR ''.'' \<and> c \<noteq> CHR ''T''"
  by (auto simp: is_ascii_digit_def)

lemma mod10_digit [simp]: "is_ascii_digit (digit_char (n mod 10))"
  by (simp add: is_ascii_digit_digit_char)

lemma div10_digit: "n < 100 \<Longrightarrow> is_ascii_digit (digit_char (n div 10))"
  by (simp add: is_ascii_digit_digit_char)

lemma digit_chars_clock:
  assumes "valid_clock c"
  shows "is_ascii_digit (digit_char (month c div 10))" "is_ascii_digit (digit_char (day c div 10))"
    "is_ascii_digit (digit_char (hour c div 10))" "is_ascii_digit (digit_char (minute c div 10))"
    "is_ascii_digit (digit_char (second c div 10))"
  using valid_clock_bounds [OF assms] by (simp_all add: div10_digit)

lemma iso_seconds_form_naive:
  assumes "valid_clock c"
  shows "iso_seconds_form (date_text c @ ''T'' @ time_text c)"
  by (simp add: iso_seconds_form_def date_text_def time_text_def digit_chars_clock [OF assms])

lemma iso_micros_form_naive:
  assumes "valid_clock c"
  shows "iso_micros_form (date_text c @ ''T'' @ time_text c @ fraction_text c)"
  by (simp add: iso_micros_form_def date_text_def time_text_def fraction_text_def
      digit_chars_clock [OF assms])

lemma mod10_not_designator [simp]:
  "digit_char (n mod 10) \<noteq> CHR ''Z''" "digit_char (n mod 10) \<noteq> CHR ''+''"
  "digit_char (n mod 10) \<noteq> CHR ''-''"
  using digit_not_punct [OF mod10_digit, of n] by simp_all

lemma no_designator_seconds: "\<not> has_tz_designator (date_text c @ ''T'' @ time_text c)"
  by (simp add: has_tz_designator_def utc_offset_suffix_def date_text_def time_text_def)

lemma no_designator_micros:
  "\<not> has_tz_designator (date_text c @ ''T'' @ time_text c @ fraction_text c)"
  by (simp add: has_tz_designator_def utc_offset_suffix_def date_text_def time_text_def
      fraction_text_def)

lemma no_designator_naive:
  assumes "valid_clock c"
  shows "\<not> has_tz_designator (isoformat (naive c))"
  using no_designator_seconds [of c] no_designator_micros [of c]
  by (simp add: isoformat_naive [OF assms])

lemma digit_char_eval:
  "digit_char 0 = CHR ''0''" "digit_char 1 = CHR ''1''" "digit_char 2 = CHR ''2''"
  "digit_char 3 = CHR ''3''" "digit_char 4 = CHR ''4''" "digit_char 5 = CHR ''5''"
  "digit_char 6 = CHR ''6''" "digit_char 7 = CHR ''7''" "digit_char 8 = CHR ''8''"
  "digit_char 9 = CHR ''9''" "digit_char (Suc 0) = CHR ''1''"
  by code_simp+

lemmas valid_clock_eval =
  valid_clock_def check_date_fields_def check_time_fields_def days_in_month_def
  DAYS_IN_MONTH_def is_leap_def

text \<open>An aware \<^verbatim>\<open>datetime\<close>, by contrast, is serialised with its offset.\<close>

lemma aware_has_designator:
  "has_tz_designator (isoformat \<lparr>year = 2024, month = 2, day = 29, hour = 23, minute = 59,
     second = 58, microsecond = 0, tzinfo = Some 19800000000\<rparr>)"
  "has_tz_designator (isoformat \<lparr>year = 2024, month = 2, day = 29, hour = 23, minute = 59,
     second = 58, microsecond = 0, tzinfo = Some (- 18000000000)\<rparr>)"
  by (simp_all add: isoformat_def format_time_def utcoffset_def format_offset_def fmt_d_2
      digit_char_eval has_tz_designator_def utc_offset_suffix_def is_ascii_digit_def)

lemma dispatch_frame: "snd (dispatch ep request w) = w"
proof (cases ep)
  case Home
  then show ?thesis
    by (cases "wall_clock w") (simp_all add: home_ok home_fault)
next
  case Health
  then show ?thesis by (simp add: health_ok)
qed

lemma serve_frame: "other_state (snd (serve invs w)) = other_state w"
proof (induction invs arbitrary: w)
  case Nil
  show ?case by simp
next
  case (Cons inv rest)
  obtain ep request t where inv: "inv = (ep, request, t)" by (cases inv)
  have "snd (dispatch ep request (w\<lparr>wall_clock := t\<rparr>)) = w\<lparr>wall_clock := t\<rparr>"
    by (rule dispatch_frame)
  then show ?case
    using Cons.IH [of "w\<lparr>wall_clock := t\<rparr>"] by (simp add: inv split_beta)
qed

lemma serve_results:
  "fst (serve invs w) =
     map (\<lambda>(ep, request, t). fst (dispatch ep request (w\<lparr>wall_clock := t\<rparr>))) invs"
proof (induction invs arbitrary: w)
  case Nil
  show ?case by simp
next
  case (Cons inv rest)
  obtain ep request t where inv: "inv = (ep, request, t)" by (cases inv)
  have "snd (dispatch ep request (w\<lparr>wall_clock := t\<rparr>)) = w\<lparr>wall_clock := t\<rparr>"
    by (rule dispatch_frame)
  then show ?case
    using Cons.IH [of "w\<lparr>wall_clock := t\<rparr>"] by (simp add: inv split_beta)
qed

lemma dispatch_structure:
  assumes "fst (dispatch ep r1 w1) = Inr a" and "fst (dispatch ep r2 w2) = Inr b"
  shows "same_structure a b"
proof (cases ep)
  case Home
  from assms Home obtain c1 where c1: "wall_clock w1 = Inr c1"
    by (cases "wall_clock w1") (simp_all add: home_fault)
  from assms Home obtain c2 where c2: "wall_clock w2 = Inr c2"
    by (cases "wall_clock w2") (simp_all add: home_fault)
  from assms Home show ?thesis
    by (auto simp: home_ok [OF c1] home_ok [OF c2] same_structure_def blank_timestamp_def)
next
  case Health
  with assms show ?thesis
    by (auto simp: health_ok same_structure_def)
qed

subsection \<open>Reading back what \<^verbatim>\<open>isoformat\<close> writes\<close>

lemma list_all_fixed_digits: "list_all is_ascii_digit (fixed_digits w n)"
  by (induction w arbitrary: n) simp_all

lemma foldl_fixed_digits:
  "foldl (\<lambda>a c. 10 * a + digit_val c) a (fixed_digits w n) = a * 10 ^ w + n mod 10 ^ w"
proof (induction w arbitrary: n)
  case 0
  show ?case by simp
next
  case (Suc w)
  have "foldl (\<lambda>a c. 10 * a + digit_val c) a (fixed_digits (Suc w) n) =
      10 * (a * 10 ^ w + n div 10 mod 10 ^ w) + n mod 10"
    by (simp add: Suc digit_val_digit_char)
  also have "\<dots> = a * 10 ^ Suc w + (10 * (n div 10 mod 10 ^ w) + n mod 10)"
    by (simp add: algebra_simps)
  also have "10 * (n div 10 mod 10 ^ w) + n mod 10 = n mod 10 ^ Suc w"
    by (simp add: mod_mult2_eq)
  finally show ?case .
qed

lemma parse_digits_fixed:
  "parse_digits w (fixed_digits w n @ rest) = Some (n mod 10 ^ w, rest)"
  by (simp add: parse_digits_def length_fixed_digits list_all_fixed_digits foldl_fixed_digits)

lemma parse_digits_fixed_all: "parse_digits w (fixed_digits w n) = Some (n mod 10 ^ w, [])"
  using parse_digits_fixed [of w n "[]"] by simp

lemma isoformat_fixed:
  assumes "valid_clock c"
  shows "isoformat (naive c) =
     fixed_digits 4 (year c) @ ''-'' @ fixed_digits 2 (month c) @ ''-'' @
     fixed_digits 2 (day c) @ ''T'' @ fixed_digits 2 (hour c) @ '':'' @
     fixed_digits 2 (minute c) @ '':'' @ fixed_digits 2 (second c) @
     (if microsecond c = 0 then [] else ''.'' @ fixed_digits 6 (microsecond c))"
proof -
  note b = valid_clock_bounds [OF assms]
  have "fmt_d 4 (year c) = fixed_digits 4 (year c)"
    using b(2) by (intro fmt_d_fixed) simp_all
  moreover have "fmt_d 2 (month c) = fixed_digits 2 (month c)"
    using b(4) by (intro fmt_d_fixed) simp_all
  moreover have "fmt_d 2 (day c) = fixed_digits 2 (day c)"
    using b(7) by (intro fmt_d_fixed) simp_all
  moreover have "fmt_d 2 (hour c) = fixed_digits 2 (hour c)"
    using b(8) by (intro fmt_d_fixed) simp_all
  moreover have "fmt_d 2 (minute c) = fixed_digits 2 (minute c)"
    using b(9) by (intro fmt_d_fixed) simp_all
  moreover have "fmt_d 2 (second c) = fixed_digits 2 (second c)"
    using b(10) by (intro fmt_d_fixed) simp_all
  moreover have "fmt_d 6 (microsecond c) = fixed_digits 6 (microsecond c)"
    using b(11) by (intro fmt_d_fixed) simp_all
  ultimately show ?thesis
    by (simp add: isoformat_def naive_def format_time_def utcoffset_def format_offset_def)
qed

lemma iso8601_fields_isoformat:
  assumes "valid_clock c"
  shows "iso8601_fields (isoformat (naive c)) =
     Some (year c, month c, day c, hour c, minute c, second c, microsecond c)"
proof -
  note b = valid_clock_bounds [OF assms]
  from b(2) have y: "year c mod 10 ^ 4 = year c" by simp
  from b(4) have m: "month c mod 10 ^ 2 = month c" by simp
  from b(7) have d: "day c mod 10 ^ 2 = day c" by simp
  from b(8) have hh: "hour c mod 10 ^ 2 = hour c" by simp
  from b(9) have mm: "minute c mod 10 ^ 2 = minute c" by simp
  from b(10) have ss: "second c mod 10 ^ 2 = second c" by simp
  from b(11) have us: "microsecond c mod 10 ^ 6 = microsecond c" by simp
  show ?thesis
    unfolding isoformat_fixed [OF assms] iso8601_fields_def
    by (simp only: parse_digits_fixed parse_digits_fixed_all y m d hh mm ss us
        append_Cons append_Nil bind.bind_lunit expect.simps parse_fraction.simps
        prod.case if_True if_False simp_thms option.case list.simps char.inject
        split: if_split)
      simp
qed

lemma iso8601_datetime_isoformat:
  assumes "valid_clock c"
  shows "iso8601_datetime (isoformat (naive c)) = Some c"
proof -
  from assms have "check_date_fields (year c) (month c) (day c) \<and>
      check_time_fields (hour c) (minute c) (second c) (microsecond c)"
    by (simp only: valid_clock_def)
  then show ?thesis
    unfolding iso8601_datetime_def iso8601_fields_isoformat [OF assms]
    by simp
qed

lemma isoformat_naive_inject:
  assumes "valid_clock c1" and "valid_clock c2"
    and "isoformat (naive c1) = isoformat (naive c2)"
  shows "c1 = c2"
proof -
  have "Some c1 = iso8601_datetime (isoformat (naive c1))"
    by (simp only: iso8601_datetime_isoformat [OF assms(1)])
  also have "\<dots> = iso8601_datetime (isoformat (naive c2))"
    by (simp only: assms(3))
  also have "\<dots> = Some c2"
    by (simp only: iso8601_datetime_isoformat [OF assms(2)])
  finally show ?thesis by (simp only: option.inject)
qed

subsection \<open>Ordinals of dates\<close>

lemma int_div_pred:
  fixes a k :: int
  assumes "0 < k"
  shows "(a - 1) div k = a div k - (if a mod k = 0 then 1 else 0)"
proof (cases "a mod k = 0")
  case True
  then obtain q where q: "a = k * q" by (auto simp: mod_eq_0_iff_dvd)
  have "a - 1 = k * (q - 1) + (k - 1)" by (simp add: q algebra_simps)
  then have "(a - 1) div k = (k * (q - 1) + (k - 1)) div k" by (simp only:)
  also have "\<dots> = q - 1" using assms by simp
  finally show ?thesis using assms True q by simp
next
  case False
  with assms have r: "0 < a mod k" "a mod k < k"
    using pos_mod_sign [of k a] pos_mod_bound [of k a] by linarith+
  from mult_div_mod_eq [of k a] have "a - 1 = k * (a div k) + (a mod k - 1)" by linarith
  then have "(a - 1) div k = (k * (a div k) + (a mod k - 1)) div k" by (simp only:)
  also have "\<dots> = a div k" using assms r by simp
  finally show ?thesis using False by simp
qed

lemma days_before_year_Suc:
  assumes "1 \<le> y"
  shows "days_before_year (Suc y) = days_before_year y + 365 + (if is_leap y then 1 else 0)"
proof -
  have m: "(int y mod 4 = 0) = (y mod 4 = 0)" "(int y mod 100 = 0) = (y mod 100 = 0)"
    "(int y mod 400 = 0) = (y mod 400 = 0)"
    by presburger+
  have c: "y mod 400 = 0 \<Longrightarrow> y mod 100 = 0" "y mod 100 = 0 \<Longrightarrow> y mod 4 = 0"
    by presburger+
  show ?thesis
    using c
    by (auto simp: days_before_year_def is_leap_def Let_def int_div_pred m)
qed

lemma days_before_year_mono:
  assumes "y \<le> y'" and "1 \<le> y"
  shows "days_before_year y \<le> days_before_year y'"
  using assms(1)
proof (induction rule: dec_induct)
  case base
  show ?case by simp
next
  case (step n)
  with assms(2) have "1 \<le> n" by simp
  from days_before_year_Suc [OF this] step.IH show ?case
    by (simp split: if_splits)
qed

lemma days_before_month_Suc:
  "1 \<le> m \<Longrightarrow> m < 12 \<Longrightarrow>
   days_before_month y (Suc m) = days_before_month y m + days_in_month y m"
  using month_cases [of m]
  by (auto simp: days_before_month_def days_in_month_def DAYS_BEFORE_MONTH_def
      DAYS_IN_MONTH_def)

lemma days_before_month_mono:
  assumes "m \<le> m'" and "1 \<le> m" and "m' \<le> 12"
  shows "days_before_month y m \<le> days_before_month y m'"
  using assms(1)
proof (induction rule: dec_induct)
  case base
  show ?case by simp
next
  case (step n)
  with assms have "1 \<le> n" "n < 12" by simp_all
  from days_before_month_Suc [OF this, of y] step.IH show ?case by simp
qed

lemma days_in_year:
  "1 \<le> m \<Longrightarrow> m \<le> 12 \<Longrightarrow>
   days_before_month y m + days_in_month y m \<le> 365 + (if is_leap y then 1 else 0)"
  using month_cases [of m]
  by (auto simp: days_before_month_def days_in_month_def DAYS_BEFORE_MONTH_def
      DAYS_IN_MONTH_def)

lemma ymd2ord_less:
  assumes a: "check_date_fields y m d" and b: "check_date_fields y' m' d'"
    and lt: "tuple_lt [y, m, d] [y', m', d']"
  shows "ymd2ord y m d < ymd2ord y' m' d'"
proof -
  from a have y: "1 \<le> y" and m: "1 \<le> m" "m \<le> 12" and d: "d \<le> days_in_month y m"
    by (simp_all add: check_date_fields_def split: if_splits)
  from b have m': "1 \<le> m'" "m' \<le> 12" and d': "1 \<le> d'"
    by (simp_all add: check_date_fields_def split: if_splits)
  from lt consider "y < y'" | "y = y'" "m < m'" | "y = y'" "m = m'" "d < d'"
    by (auto split: if_splits)
  then show ?thesis
  proof cases
    case 1
    have "int (days_before_month y m) + int d \<le> 365 + (if is_leap y then 1 else 0)"
      using days_in_year [OF m, of y] d by (simp split: if_splits)
    then have "ymd2ord y m d \<le> days_before_year (Suc y)"
      by (simp add: ymd2ord_def days_before_year_Suc [OF y])
    also from 1 y have "\<dots> \<le> days_before_year y'"
      by (intro days_before_year_mono) simp_all
    also from d' have "\<dots> < ymd2ord y' m' d'"
      by (simp add: ymd2ord_def)
    finally show ?thesis .
  next
    case 2
    from 2(2) have "Suc m \<le> m'" by simp
    from days_before_month_mono [OF this _ m'(2), of y]
    have "days_before_month y (Suc m) \<le> days_before_month y m'" by simp
    moreover from 2(2) m'(2) have "m < 12" by simp
    note days_before_month_Suc [OF m(1) this, of y]
    ultimately show ?thesis
      using d d' 2(1) by (simp add: ymd2ord_def)
  next
    case 3
    then show ?thesis by (simp add: ymd2ord_def)
  qed
qed


subsection \<open>Subtraction agrees with comparison\<close>

lemma datetime_sub_naive:
  "datetime_sub (naive c2) (naive c1) =
     Inr ((toordinal c2 - toordinal c1) * 86400000000 +
          (int (second c2) + int (minute c2) * 60 + int (hour c2) * 3600 -
           (int (second c1) + int (minute c1) * 60 + int (hour c1) * 3600)) * 1000000 +
          (int (microsecond c2) - int (microsecond c1)))"
  by (simp add: datetime_sub_def naive_def toordinal_def timedelta_def)

lemma datetime_sub_not_positive:
  assumes v1: "valid_clock c1" and v2: "valid_clock c2"
    and le: "fields c2 = fields c1 \<or> tuple_lt (fields c2) (fields c1)"
    and sub: "datetime_sub (naive c2) (naive c1) = Inr delta"
  shows "delta \<le> 0"
proof -
  note b1 = valid_clock_bounds [OF v1]
  note b2 = valid_clock_bounds [OF v2]
  let ?s1 = "int (second c1) + int (minute c1) * 60 + int (hour c1) * 3600"
  let ?s2 = "int (second c2) + int (minute c2) * 60 + int (hour c2) * 3600"
  from sub have delta: "delta = (toordinal c2 - toordinal c1) * 86400000000 +
      (?s2 - ?s1) * 1000000 + (int (microsecond c2) - int (microsecond c1))"
    by (simp add: datetime_sub_naive)
  show ?thesis
  proof (cases "year c2 = year c1 \<and> month c2 = month c1 \<and> day c2 = day c1")
    case True
    then have o: "toordinal c2 = toordinal c1" by (simp add: toordinal_def)
    from le True consider "hour c2 < hour c1"
      | "hour c2 = hour c1" "minute c2 < minute c1"
      | "hour c2 = hour c1" "minute c2 = minute c1" "second c2 < second c1"
      | "hour c2 = hour c1" "minute c2 = minute c1" "second c2 = second c1"
        "microsecond c2 \<le> microsecond c1"
      by (auto simp: fields_def split: if_splits)
    then show ?thesis
    proof cases
      case 1
      with b1(9,10,11) b2(9,10,11) show ?thesis unfolding delta o by simp
    next
      case 2
      with b1(10,11) b2(10,11) show ?thesis unfolding delta o by simp
    next
      case 3
      with b1(11) b2(11) show ?thesis unfolding delta o by simp
    next
      case 4
      then show ?thesis unfolding delta o by simp
    qed
  next
    case False
    with le have "tuple_lt [year c2, month c2, day c2] [year c1, month c1, day c1]"
      by (auto simp: fields_def split: if_splits)
    moreover from v1 v2 have "check_date_fields (year c1) (month c1) (day c1)"
      "check_date_fields (year c2) (month c2) (day c2)"
      by (simp_all add: valid_clock_def)
    ultimately have "toordinal c2 < toordinal c1"
      by (simp add: toordinal_def ymd2ord_less)
    then have "(toordinal c2 - toordinal c1) * 86400000000 \<le> - 86400000000"
      by simp
    with b1(8,9,10,11) b2(8,9,10,11) show ?thesis unfolding delta by simp
  qed
qed

lemma fields_naive: "fields (naive c) = fields c"
  by (simp add: fields_def naive_def)

lemma datetime_lt_naive:
  assumes v1: "valid_clock c1" and v2: "valid_clock c2"
    and sub: "datetime_sub (naive c2) (naive c1) = Inr delta" and pos: "0 < delta"
  shows "datetime_lt (naive c1) (naive c2) = Inr True"
proof -
  from datetime_sub_not_positive [OF v1 v2 _ sub] pos
  have "\<not> (fields c2 = fields c1 \<or> tuple_lt (fields c2) (fields c1))" by auto
  then have "cmp (fields c1) (fields c2) = - 1"
    by (auto simp: cmp_def)
  moreover have "tzinfo (naive c1) = tzinfo (naive c2)" by (simp add: naive_def)
  ultimately show ?thesis
    by (simp add: datetime_lt_def datetime_cmp_def fields_naive)
qed

section \<open>Properties\<close>

text \<open>
  C1. For every request and every clock value the greeting handler returns status 200, and
  the JSON body has \<^verbatim>\<open>message\<close> equal to \<^verbatim>\<open>Hello from DevOps Stage 1 - Django!\<close>
  and \<^verbatim>\<open>status\<close> equal to \<^verbatim>\<open>success\<close>.
\<close>

theorem home_response:
  "wall_clock w = Inr c \<Longrightarrow>
   \<exists>resp. fst (home request w) = Inr resp \<and> status_code resp = 200 \<and>
     json_get ''message'' (body resp) = Some (JString ''Hello from DevOps Stage 1 - Django!'') \<and>
     json_get ''status'' (body resp) = Some (JString ''success'')"
  by (simp add: home_ok)

theorem home_response_witness:
  "wall_clock \<lparr>wall_clock = Inr \<lparr>year = 2024, month = 1, day = 1, hour = 12, minute = 0,
        second = 0, microsecond = 0\<rparr>, other_state = ()\<rparr> =
     Inr \<lparr>year = 2024, month = 1, day = 1, hour = 12, minute = 0, second = 0, microsecond = 0\<rparr> \<and>
   (\<exists>resp. fst (home \<lparr>http_method = ''GET'', path = ''/'', headers = [], content = []\<rparr>
        \<lparr>wall_clock = Inr \<lparr>year = 2024, month = 1, day = 1, hour = 12, minute = 0,
           second = 0, microsecond = 0\<rparr>, other_state = ()\<rparr>) = Inr resp \<and>
      status_code resp = 200 \<and>
      json_get ''message'' (body resp) = Some (JString ''Hello from DevOps Stage 1 - Django!'') \<and>
      json_get ''status'' (body resp) = Some (JString ''success''))"
proof -
  let ?c = "\<lparr>year = 2024, month = 1, day = 1, hour = 12, minute = 0, second = 0,
    microsecond = 0\<rparr> :: clock"
  let ?w = "\<lparr>wall_clock = Inr ?c, other_state = ()\<rparr>"
  have h: "wall_clock ?w = Inr ?c" by simp
  show ?thesis
    using h home_response [OF h, of "\<lparr>http_method = ''GET'', path = ''/'', headers = [], content = []\<rparr>"]
    by simp
qed

text \<open>
  C2. For every request the health handler returns status 200 with the JSON body
  \<^verbatim>\<open>{"status": "healthy"}\<close>, an object of exactly one field.
\<close>

theorem health_response:
  "fst (health request w) =
     Inr \<lparr>status_code = 200, content_type = ''application/json'',
          body = JObject [(''status'', JString ''healthy'')]\<rparr>"
  by (simp add: health_def)

text \<open>
  C3. When the clock read of an invocation gives the datetime \<open>c\<close>, the
  \<^verbatim>\<open>timestamp\<close> field of the greeting is the ISO serialisation of that reading:
  the year in four digits, then month, day, hour, minute and second in two digits each,
  laid out as \<^verbatim>\<open>YYYY-MM-DDTHH:MM:SS\<close>, followed by \<open>.\<close> and the microsecond in six
  digits when it is not zero. This string is the value of \<open>isoformat (naive c)\<close>.
\<close>

theorem home_timestamp:
  assumes "wall_clock w = Inr c" and "valid_clock c"
  shows "\<exists>resp ts. fst (home request w) = Inr resp \<and>
     json_get ''timestamp'' (body resp) = Some (JString ts) \<and>
     ts = date_text c @ ''T'' @ time_text c @
       (if microsecond c = 0 then [] else fraction_text c) \<and>
     ts = isoformat (naive c)"
  by (simp add: home_ok [OF assms(1)] isoformat_naive [OF assms(2)])

theorem home_timestamp_witness:
  "wall_clock \<lparr>wall_clock = Inr \<lparr>year = 2024, month = 2, day = 29, hour = 23, minute = 59,
        second = 58, microsecond = 120034\<rparr>, other_state = ()\<rparr> =
     Inr \<lparr>year = 2024, month = 2, day = 29, hour = 23, minute = 59, second = 58,
        microsecond = 120034\<rparr> \<and>
   valid_clock \<lparr>year = 2024, month = 2, day = 29, hour = 23, minute = 59, second = 58,
        microsecond = 120034\<rparr> \<and>
   (\<exists>resp. fst (home \<lparr>http_method = ''GET'', path = ''/'', headers = [], content = []\<rparr>
        \<lparr>wall_clock = Inr \<lparr>year = 2024, month = 2, day = 29, hour = 23, minute = 59,
           second = 58, microsecond = 120034\<rparr>, other_state = ()\<rparr>) = Inr resp \<and>
      json_get ''timestamp'' (body resp) = Some (JString ''2024-02-29T23:59:58.120034''))"
proof -
  let ?c = "\<lparr>year = 2024, month = 2, day = 29, hour = 23, minute = 59, second = 58,
    microsecond = 120034\<rparr> :: clock"
  let ?w = "\<lparr>wall_clock = Inr ?c, other_state = ()\<rparr>"
  have h: "wall_clock ?w = Inr ?c" by simp
  have v: "valid_clock ?c" by (simp add: valid_clock_eval)
  have lit: "date_text ?c @ ''T'' @ time_text ?c @
      (if microsecond ?c = 0 then [] else fraction_text ?c) = ''2024-02-29T23:59:58.120034''"
    by (simp add: date_text_def time_text_def fraction_text_def digit_char_eval)
  have "\<exists>resp ts.
      fst (home \<lparr>http_method = ''GET'', path = ''/'', headers = [], content = []\<rparr> ?w) =
        Inr resp \<and>
      json_get ''timestamp'' (body resp) = Some (JString ts) \<and>
      ts = ''2024-02-29T23:59:58.120034'' \<and> ts = isoformat (naive ?c)"
    using home_timestamp [OF h v,
        of "\<lparr>http_method = ''GET'', path = ''/'', headers = [], content = []\<rparr>"]
    unfolding lit .
  with h v show ?thesis by blast
qed

text \<open>
  C4. Two invocations of the greeting handler whose clock values are a positive
  \<^verbatim>\<open>timedelta\<close> apart, the second later than the first (one second is
  \<open>1000000\<close> microseconds): the two \<^verbatim>\<open>timestamp\<close> strings are different, both are
  valid ISO 8601 datetimes, and the datetimes they denote compare strictly increasing,
  \<^verbatim>\<open>t1 < t2\<close>, in invocation order. The clock value of an invocation is the naive local
  datetime that \<^verbatim>\<open>datetime.now()\<close> returns; the distance of two clock values is what
  \<^verbatim>\<open>datetime.__sub__\<close> computes.
\<close>

theorem home_timestamps_increase:
  assumes "wall_clock w1 = Inr c1" and "wall_clock w2 = Inr c2"
    and "valid_clock c1" and "valid_clock c2"
    and "datetime_sub (naive c2) (naive c1) = Inr delta" and "0 < delta"
  shows "\<exists>r1 r2 ts1 ts2 t1 t2.
     fst (home request1 w1) = Inr r1 \<and> fst (home request2 w2) = Inr r2 \<and>
     json_get ''timestamp'' (body r1) = Some (JString ts1) \<and>
     json_get ''timestamp'' (body r2) = Some (JString ts2) \<and>
     ts1 \<noteq> ts2 \<and>
     iso8601_datetime ts1 = Some t1 \<and> iso8601_datetime ts2 = Some t2 \<and>
     datetime_lt (naive t1) (naive t2) = Inr True"
proof -
  have lt: "datetime_lt (naive c1) (naive c2) = Inr True"
    by (rule datetime_lt_naive [OF assms(3,4,5,6)])
  have "c1 \<noteq> c2"
  proof
    assume "c1 = c2"
    with assms(5) have "delta = 0" by (simp add: datetime_sub_naive)
    with assms(6) show False by simp
  qed
  with isoformat_naive_inject [OF assms(3,4)]
  have ne: "isoformat (naive c1) \<noteq> isoformat (naive c2)" by blast
  have p1: "iso8601_datetime (isoformat (naive c1)) = Some c1"
    by (rule iso8601_datetime_isoformat [OF assms(3)])
  have p2: "iso8601_datetime (isoformat (naive c2)) = Some c2"
    by (rule iso8601_datetime_isoformat [OF assms(4)])
  from lt ne p1 p2 show ?thesis
    by (simp add: home_ok [OF assms(1)] home_ok [OF assms(2)])
qed

theorem home_timestamps_increase_witness:
  "wall_clock \<lparr>wall_clock = Inr \<lparr>year = 2024, month = 2, day = 29, hour = 23, minute = 59,
        second = 59, microsecond = 500000\<rparr>, other_state = ()\<rparr> =
     Inr \<lparr>year = 2024, month = 2, day = 29, hour = 23, minute = 59, second = 59,
        microsecond = 500000\<rparr> \<and>
   wall_clock \<lparr>wall_clock = Inr \<lparr>year = 2024, month = 3, day = 1, hour = 0, minute = 0,
        second = 0, microsecond = 500000\<rparr>, other_state = ()\<rparr> =
     Inr \<lparr>year = 2024, month = 3, day = 1, hour = 0, minute = 0, second = 0,
        microsecond = 500000\<rparr> \<and>
   valid_clock \<lparr>year = 2024, month = 2, day = 29, hour = 23, minute = 59, second = 59,
        microsecond = 500000\<rparr> \<and>
   valid_clock \<lparr>year = 2024, month = 3, day = 1, hour = 0, minute = 0, second = 0,
        microsecond = 500000\<rparr> \<and>
   datetime_sub
     (naive \<lparr>year = 2024, month = 3, day = 1, hour = 0, minute = 0, second = 0,
        microsecond = 500000\<rparr>)
     (naive \<lparr>year = 2024, month = 2, day = 29, hour = 23, minute = 59, second = 59,
        microsecond = 500000\<rparr>) = Inr 1000000 \<and>
   (\<exists>r1 r2 ts1 ts2 t1 t2.
      fst (home \<lparr>http_method = ''GET'', path = ''/'', headers = [], content = []\<rparr>
        \<lparr>wall_clock = Inr \<lparr>year = 2024, month = 2, day = 29, hour = 23, minute = 59,
           second = 59, microsecond = 500000\<rparr>, other_state = ()\<rparr>) = Inr r1 \<and>
      fst (home \<lparr>http_method = ''GET'', path = ''/'', headers = [], content = []\<rparr>
        \<lparr>wall_clock = Inr \<lparr>year = 2024, month = 3, day = 1, hour = 0, minute = 0,
           second = 0, microsecond = 500000\<rparr>, other_state = ()\<rparr>) = Inr r2 \<and>
      json_get ''timestamp'' (body r1) = Some (JString ts1) \<and>
      json_get ''timestamp'' (body r2) = Some (JString ts2) \<and>
      ts1 \<noteq> ts2 \<and>
      iso8601_datetime ts1 = Some t1 \<and> iso8601_datetime ts2 = Some t2 \<and>
      datetime_lt (naive t1) (naive t2) = Inr True)"
proof -
  let ?c1 = "\<lparr>year = 2024, month = 2, day = 29, hour = 23, minute = 59, second = 59,
    microsecond = 500000\<rparr> :: clock"
  let ?c2 = "\<lparr>year = 2024, month = 3, day = 1, hour = 0, minute = 0, second = 0,
    microsecond = 500000\<rparr> :: clock"
  let ?r = "\<lparr>http_method = ''GET'', path = ''/'', headers = [], content = []\<rparr>"
  let ?w1 = "\<lparr>wall_clock = Inr ?c1, other_state = ()\<rparr>"
  let ?w2 = "\<lparr>wall_clock = Inr ?c2, other_state = ()\<rparr>"
  have h1: "wall_clock ?w1 = Inr ?c1" and h2: "wall_clock ?w2 = Inr ?c2" by simp_all
  have v1: "valid_clock ?c1" and v2: "valid_clock ?c2" by (simp_all add: valid_clock_eval)
  have o1: "toordinal ?c1 = 738945"
    by (simp add: toordinal_def ymd2ord_def days_before_year_def days_before_month_def
        DAYS_BEFORE_MONTH_def is_leap_def)
  have o2: "toordinal ?c2 = 738946"
    by (simp add: toordinal_def ymd2ord_def days_before_year_def days_before_month_def
        DAYS_BEFORE_MONTH_def is_leap_def)
  have d: "datetime_sub (naive ?c2) (naive ?c1) = Inr 1000000"
    unfolding datetime_sub_naive o1 o2 by simp
  have p: "(0::int) < 1000000" by simp
  from home_timestamps_increase [OF h1 h2 v1 v2 d p, of ?r ?r] h1 h2 v1 v2 d
  show ?thesis by blast
qed

text \<open>
  C5, as stated: for every clock value the \<^verbatim>\<open>timestamp\<close> has the form of
  \<^verbatim>\<open>2024-01-01T12:00:00.000000\<close>, with a fraction of six digits. It fails at that very
  instant: with \<^verbatim>\<open>microsecond = 0\<close>, \<^verbatim>\<open>isoformat\<close> writes no fraction.
\<close>

theorem home_timestamp_fraction_counterexample:
  "valid_clock \<lparr>year = 2024, month = 1, day = 1, hour = 12, minute = 0, second = 0,
      microsecond = 0\<rparr> \<and>
   fst (home \<lparr>http_method = ''GET'', path = ''/'', headers = [], content = []\<rparr>
      \<lparr>wall_clock = Inr \<lparr>year = 2024, month = 1, day = 1, hour = 12, minute = 0,
         second = 0, microsecond = 0\<rparr>, other_state = ()\<rparr>) =
     Inr \<lparr>status_code = 200, content_type = ''application/json'',
          body = JObject [(''message'', JString ''Hello from DevOps Stage 1 - Django!''),
                          (''status'', JString ''success''),
                          (''timestamp'', JString ''2024-01-01T12:00:00'')]\<rparr> \<and>
   \<not> iso_micros_form ''2024-01-01T12:00:00''"
proof -
  let ?c = "\<lparr>year = 2024, month = 1, day = 1, hour = 12, minute = 0, second = 0,
    microsecond = 0\<rparr> :: clock"
  have v: "valid_clock ?c" by (simp add: valid_clock_eval)
  have iso: "isoformat (naive ?c) = ''2024-01-01T12:00:00''"
    by (subst isoformat_naive [OF v]) (simp add: date_text_def time_text_def digit_char_eval)
  have n: "\<not> iso_micros_form ''2024-01-01T12:00:00''" by (simp add: iso_micros_form_def)
  have h: "wall_clock \<lparr>wall_clock = Inr ?c, other_state = ()\<rparr> = Inr ?c" by simp
  show ?thesis
    using v n home_ok [OF h, of "\<lparr>http_method = ''GET'', path = ''/'', headers = [], content = []\<rparr>"]
    unfolding iso by simp
qed

text \<open>
  C5, amended: for every clock value the \<^verbatim>\<open>timestamp\<close> is a valid ISO 8601
  datetime, and the datetime it denotes is the clock value. It is date, \<open>T\<close> and time,
  \<^verbatim>\<open>YYYY-MM-DDTHH:MM:SS\<close>, followed by \<open>.\<close> and six digits of fraction when the
  microsecond of the reading is not zero, and by nothing when it is zero.
\<close>

theorem home_timestamp_form:
  assumes "wall_clock w = Inr c" and "valid_clock c"
  shows "\<exists>resp ts. fst (home request w) = Inr resp \<and>
     json_get ''timestamp'' (body resp) = Some (JString ts) \<and>
     iso8601_datetime ts = Some c \<and>
     (if microsecond c = 0 then iso_seconds_form ts else iso_micros_form ts)"
proof -
  have "iso8601_datetime (isoformat (naive c)) = Some c"
    by (rule iso8601_datetime_isoformat [OF assms(2)])
  moreover have "if microsecond c = 0 then iso_seconds_form (isoformat (naive c))
      else iso_micros_form (isoformat (naive c))"
    using iso_seconds_form_naive [OF assms(2)] iso_micros_form_naive [OF assms(2)]
    by (simp add: isoformat_naive [OF assms(2)])
  ultimately show ?thesis
    by (simp add: home_ok [OF assms(1)])
qed

theorem home_timestamp_form_witness:
  "wall_clock \<lparr>wall_clock = Inr \<lparr>year = 2024, month = 2, day = 29, hour = 23, minute = 59,
        second = 58, microsecond = 120034\<rparr>, other_state = ()\<rparr> =
     Inr \<lparr>year = 2024, month = 2, day = 29, hour = 23, minute = 59, second = 58,
        microsecond = 120034\<rparr> \<and>
   valid_clock \<lparr>year = 2024, month = 2, day = 29, hour = 23, minute = 59, second = 58,
        microsecond = 120034\<rparr> \<and>
   (\<exists>resp ts. fst (home \<lparr>http_method = ''GET'', path = ''/'', headers = [], content = []\<rparr>
        \<lparr>wall_clock = Inr \<lparr>year = 2024, month = 2, day = 29, hour = 23, minute = 59,
           second = 58, microsecond = 120034\<rparr>, other_state = ()\<rparr>) = Inr resp \<and>
      json_get ''timestamp'' (body resp) = Some (JString ts) \<and>
      iso8601_datetime ts =
        Some \<lparr>year = 2024, month = 2, day = 29, hour = 23, minute = 59, second = 58,
          microsecond = 120034\<rparr> \<and>
      iso_micros_form ts)"
proof -
  let ?c = "\<lparr>year = 2024, month = 2, day = 29, hour = 23, minute = 59, second = 58,
    microsecond = 120034\<rparr> :: clock"
  let ?w = "\<lparr>wall_clock = Inr ?c, other_state = ()\<rparr>"
  have h: "wall_clock ?w = Inr ?c" by simp
  have v: "valid_clock ?c" by (simp add: valid_clock_eval)
  show ?thesis
    using h v
      home_timestamp_form [OF h v, of "\<lparr>http_method = ''GET'', path = ''/'', headers = [], content = []\<rparr>"]
    by simp
qed

text \<open>
  C6. Both handlers ignore the request: on any two requests, in any two worlds whose clock
  read gives the same outcome, the greeting handler returns the same result, and so does
  the health handler.
\<close>

theorem handlers_ignore_request:
  "wall_clock w1 = wall_clock w2 \<Longrightarrow>
   fst (home r1 w1) = fst (home r2 w2) \<and> fst (health r1 w1) = fst (health r2 w2)"
  by (cases "wall_clock w2") (simp_all add: home_ok home_fault health_ok)

theorem handlers_ignore_request_witness:
  "wall_clock \<lparr>wall_clock = Inr \<lparr>year = 2024, month = 2, day = 29, hour = 23, minute = 59,
        second = 58, microsecond = 120034\<rparr>, other_state = (0::nat)\<rparr> =
   wall_clock \<lparr>wall_clock = Inr \<lparr>year = 2024, month = 2, day = 29, hour = 23, minute = 59,
        second = 58, microsecond = 120034\<rparr>, other_state = (7::nat)\<rparr> \<and>
   fst (home \<lparr>http_method = ''GET'', path = ''/'', headers = [], content = []\<rparr>
      \<lparr>wall_clock = Inr \<lparr>year = 2024, month = 2, day = 29, hour = 23, minute = 59,
         second = 58, microsecond = 120034\<rparr>, other_state = (0::nat)\<rparr>) =
   fst (home \<lparr>http_method = ''POST'', path = ''/admin'',
        headers = [(''Authorization'', ''Bearer x'')], content = ''a=1''\<rparr>
      \<lparr>wall_clock = Inr \<lparr>year = 2024, month = 2, day = 29, hour = 23, minute = 59,
         second = 58, microsecond = 120034\<rparr>, other_state = (7::nat)\<rparr>) \<and>
   fst (health \<lparr>http_method = ''GET'', path = ''/'', headers = [], content = []\<rparr>
      \<lparr>wall_clock = Inr \<lparr>year = 2024, month = 2, day = 29, hour = 23, minute = 59,
         second = 58, microsecond = 120034\<rparr>, other_state = (0::nat)\<rparr>) =
   fst (health \<lparr>http_method = ''POST'', path = ''/admin'',
        headers = [(''Authorization'', ''Bearer x'')], content = ''a=1''\<rparr>
      \<lparr>wall_clock = Inr \<lparr>year = 2024, month = 2, day = 29, hour = 23, minute = 59,
         second = 58, microsecond = 120034\<rparr>, other_state = (7::nat)\<rparr>)"
proof -
  let ?c = "\<lparr>year = 2024, month = 2, day = 29, hour = 23, minute = 59, second = 58,
    microsecond = 120034\<rparr> :: clock"
  let ?w1 = "\<lparr>wall_clock = Inr ?c, other_state = (0::nat)\<rparr>"
  let ?w2 = "\<lparr>wall_clock = Inr ?c, other_state = (7::nat)\<rparr>"
  have h: "wall_clock ?w1 = wall_clock ?w2" by simp
  show ?thesis
    using h handlers_ignore_request [OF h,
        of "\<lparr>http_method = ''GET'', path = ''/'', headers = [], content = []\<rparr>"
           "\<lparr>http_method = ''POST'', path = ''/admin'',
              headers = [(''Authorization'', ''Bearer x'')], content = ''a=1''\<rparr>"]
    by simp
qed

text \<open>
  C7. Neither handler changes the world: each returns the world it was given. Over any
  sequence of invocations of the two endpoints, in which only the environment moves the
  clock, the rest of the state at the end is the state at the start, every invocation has
  its result, and any two responses of the same endpoint have the same structure: they
  agree on everything except the value under \<^verbatim>\<open>timestamp\<close>.
\<close>

theorem handlers_frame:
  "snd (home request w) = w \<and> snd (health request w) = w \<and>
   other_state (snd (serve invs w)) = other_state w \<and>
   length (fst (serve invs w)) = length invs \<and>
   (\<forall>i<length invs. \<forall>j<length invs. \<forall>a b.
      fst (invs ! i) = fst (invs ! j) \<and>
      fst (serve invs w) ! i = Inr a \<and> fst (serve invs w) ! j = Inr b \<longrightarrow>
      same_structure a b)"
proof -
  have "snd (home request w) = w"
    using dispatch_frame [of Home request w] by simp
  moreover have "snd (health request w) = w"
    using dispatch_frame [of Health request w] by simp
  moreover have "length (fst (serve invs w)) = length invs"
    by (simp add: serve_results)
  moreover have "same_structure a b"
    if "i < length invs" "j < length invs" "fst (invs ! i) = fst (invs ! j)"
      "fst (serve invs w) ! i = Inr a" "fst (serve invs w) ! j = Inr b" for i j a b
  proof -
    obtain ep r1 t1 where i: "invs ! i = (ep, r1, t1)" by (cases "invs ! i")
    with that(3) obtain r2 t2 where j: "invs ! j = (ep, r2, t2)" by (cases "invs ! j") simp
    from that(1,4) i have "fst (dispatch ep r1 (w\<lparr>wall_clock := t1\<rparr>)) = Inr a"
      by (simp add: serve_results)
    moreover from that(2,5) j have "fst (dispatch ep r2 (w\<lparr>wall_clock := t2\<rparr>)) = Inr b"
      by (simp add: serve_results)
    ultimately show ?thesis by (rule dispatch_structure)
  qed
  ultimately show ?thesis by (simp add: serve_frame)
qed

theorem handlers_frame_witness:
  "snd (home \<lparr>http_method = ''GET'', path = ''/'', headers = [], content = []\<rparr>
      \<lparr>wall_clock = Inr \<lparr>year = 2024, month = 2, day = 29, hour = 23, minute = 59,
         second = 58, microsecond = 0\<rparr>, other_state = ''db''\<rparr>) =
     \<lparr>wall_clock = Inr \<lparr>year = 2024, month = 2, day = 29, hour = 23, minute = 59,
         second = 58, microsecond = 0\<rparr>, other_state = ''db''\<rparr> \<and>
   other_state (snd (serve
     [(Home, \<lparr>http_method = ''GET'', path = ''/'', headers = [], content = []\<rparr>,
         Inr \<lparr>year = 2024, month = 2, day = 29, hour = 23, minute = 59, second = 58,
           microsecond = 0\<rparr>),
      (Health, \<lparr>http_method = ''GET'', path = ''/health'', headers = [], content = []\<rparr>,
         Inl OSError),
      (Home, \<lparr>http_method = ''POST'', path = ''/'', headers = [], content = ''a=1''\<rparr>,
         Inr \<lparr>year = 2024, month = 2, day = 29, hour = 23, minute = 59, second = 59,
           microsecond = 0\<rparr>)]
     \<lparr>wall_clock = Inr \<lparr>year = 2024, month = 2, day = 29, hour = 23, minute = 59,
         second = 58, microsecond = 0\<rparr>, other_state = ''db''\<rparr>)) = ''db'' \<and>
   (\<exists>a b. fst (serve
     [(Home, \<lparr>http_method = ''GET'', path = ''/'', headers = [], content = []\<rparr>,
         Inr \<lparr>year = 2024, month = 2, day = 29, hour = 23, minute = 59, second = 58,
           microsecond = 0\<rparr>),
      (Health, \<lparr>http_method = ''GET'', path = ''/health'', headers = [], content = []\<rparr>,
         Inl OSError),
      (Home, \<lparr>http_method = ''POST'', path = ''/'', headers = [], content = ''a=1''\<rparr>,
         Inr \<lparr>year = 2024, month = 2, day = 29, hour = 23, minute = 59, second = 59,
           microsecond = 0\<rparr>)]
     \<lparr>wall_clock = Inr \<lparr>year = 2024, month = 2, day = 29, hour = 23, minute = 59,
         second = 58, microsecond = 0\<rparr>, other_state = ''db''\<rparr>) =
       [Inr a,
        Inr \<lparr>status_code = 200, content_type = ''application/json'',
             body = JObject [(''status'', JString ''healthy'')]\<rparr>,
        Inr b] \<and> same_structure a b)"
proof -
  let ?c1 = "\<lparr>year = 2024, month = 2, day = 29, hour = 23, minute = 59, second = 58,
    microsecond = 0\<rparr> :: clock"
  let ?c2 = "\<lparr>year = 2024, month = 2, day = 29, hour = 23, minute = 59, second = 59,
    microsecond = 0\<rparr> :: clock"
  let ?r1 = "\<lparr>http_method = ''GET'', path = ''/'', headers = [], content = []\<rparr>"
  let ?r2 = "\<lparr>http_method = ''GET'', path = ''/health'', headers = [], content = []\<rparr>"
  let ?r3 = "\<lparr>http_method = ''POST'', path = ''/'', headers = [], content = ''a=1''\<rparr>"
  let ?w = "\<lparr>wall_clock = Inr ?c1, other_state = ''db''\<rparr>"
  let ?invs = "[(Home, ?r1, Inr ?c1), (Health, ?r2, Inl OSError), (Home, ?r3, Inr ?c2)]"
  let ?a = "\<lparr>status_code = 200, content_type = ''application/json'',
     body = JObject [(''message'', JString ''Hello from DevOps Stage 1 - Django!''),
                     (''status'', JString ''success''),
                     (''timestamp'', JString (isoformat (naive ?c1)))]\<rparr>"
  let ?b = "\<lparr>status_code = 200, content_type = ''application/json'',
     body = JObject [(''message'', JString ''Hello from DevOps Stage 1 - Django!''),
                     (''status'', JString ''success''),
                     (''timestamp'', JString (isoformat (naive ?c2)))]\<rparr>"
  have res: "fst (serve ?invs ?w) =
      [Inr ?a,
       Inr \<lparr>status_code = 200, content_type = ''application/json'',
            body = JObject [(''status'', JString ''healthy'')]\<rparr>,
       Inr ?b]"
    by (simp add: home_ok health_ok)
  note f = handlers_frame [of ?r1 ?w ?invs]
  from f have h: "snd (home ?r1 ?w) = ?w" and o: "other_state (snd (serve ?invs ?w)) = ''db''"
    by simp_all
  from f have "\<forall>i<length ?invs. \<forall>j<length ?invs. \<forall>a b.
      fst (?invs ! i) = fst (?invs ! j) \<and>
      fst (serve ?invs ?w) ! i = Inr a \<and> fst (serve ?invs ?w) ! j = Inr b \<longrightarrow>
      same_structure a b"
    by blast
  from this [rule_format, of 0 2 ?a ?b] res have "same_structure ?a ?b" by simp
  with res h o show ?thesis by blast
qed

text \<open>
  C8. When the clock read succeeds the greeting handler returns a response with status
  200, for every request and clock value; it raises only what the clock read raised. The
  health handler returns a response with status 200 in every world, whatever the clock
  does. Both handlers are total functions.
\<close>

theorem handlers_cannot_fail:
  "(wall_clock w = Inr c \<longrightarrow>
      (\<exists>resp. fst (home request w) = Inr resp \<and> status_code resp = 200)) \<and>
   (\<forall>e. fst (home request w) = Inl e \<longrightarrow> wall_clock w = Inl e) \<and>
   (\<exists>resp. fst (health request w) = Inr resp \<and> status_code resp = 200)"
  by (cases "wall_clock w") (simp_all add: home_ok home_fault health_ok)

theorem handlers_cannot_fail_witness:
  "wall_clock \<lparr>wall_clock = Inr \<lparr>year = 2024, month = 2, day = 29, hour = 23, minute = 59,
        second = 58, microsecond = 120034\<rparr>, other_state = ()\<rparr> =
     Inr \<lparr>year = 2024, month = 2, day = 29, hour = 23, minute = 59, second = 58,
        microsecond = 120034\<rparr> \<and>
   (\<exists>resp. fst (home \<lparr>http_method = ''GET'', path = ''/'', headers = [], content = []\<rparr>
        \<lparr>wall_clock = Inr \<lparr>year = 2024, month = 2, day = 29, hour = 23, minute = 59,
           second = 58, microsecond = 120034\<rparr>, other_state = ()\<rparr>) = Inr resp \<and>
      status_code resp = 200) \<and>
   fst (home \<lparr>http_method = ''GET'', path = ''/'', headers = [], content = []\<rparr>
        \<lparr>wall_clock = Inl OSError, other_state = ()\<rparr>) = Inl OSError \<and>
   wall_clock \<lparr>wall_clock = Inl OSError, other_state = ()\<rparr> = Inl OSError \<and>
   (\<exists>resp. fst (health \<lparr>http_method = ''GET'', path = ''/'', headers = [], content = []\<rparr>
        \<lparr>wall_clock = Inl OSError, other_state = ()\<rparr>) = Inr resp \<and> status_code resp = 200)"
proof -
  let ?c = "\<lparr>year = 2024, month = 2, day = 29, hour = 23, minute = 59, second = 58,
    microsecond = 120034\<rparr> :: clock"
  let ?r = "\<lparr>http_method = ''GET'', path = ''/'', headers = [], content = []\<rparr>"
  let ?w = "\<lparr>wall_clock = Inr ?c, other_state = ()\<rparr>"
  let ?v = "\<lparr>wall_clock = Inl OSError :: fault + clock, other_state = ()\<rparr>"
  have h: "wall_clock ?w = Inr ?c" by simp
  have f: "fst (home ?r ?v) = Inl OSError" by (simp add: home_fault)
  from handlers_cannot_fail [of ?w ?c ?r] h
  have a: "\<exists>resp. fst (home ?r ?w) = Inr resp \<and> status_code resp = 200" by blast
  from handlers_cannot_fail [of ?v ?c ?r] f
  have b: "wall_clock ?v = Inl OSError"
    and c: "\<exists>resp. fst (health ?r ?v) = Inr resp \<and> status_code resp = 200" by blast+
  from h a f b c show ?thesis by blast
qed

text \<open>
  C9. The health handler is a constant function: any two invocations, with any requests,
  in any worlds and at any clock values, return the same result.
\<close>

theorem health_constant: "fst (health r1 w1) = fst (health r2 w2)"
  by (simp add: health_ok)

text \<open>
  C10. The \<^verbatim>\<open>timestamp\<close> of the greeting carries no timezone designator: it does not
  end in \<open>Z\<close> and its last six characters are not a UTC offset \<^verbatim>\<open>+hh:mm\<close> or
  \<^verbatim>\<open>-hh:mm\<close>. The handler serialises a naive \<^verbatim>\<open>datetime\<close>, whose
  \<^verbatim>\<open>utcoffset()\<close> is \<^verbatim>\<open>None\<close>.
\<close>

theorem home_timestamp_naive:
  assumes "wall_clock w = Inr c" and "valid_clock c"
  shows "\<exists>resp ts. fst (home request w) = Inr resp \<and>
     json_get ''timestamp'' (body resp) = Some (JString ts) \<and>
     \<not> has_tz_designator ts \<and> utcoffset (naive c) = None"
  using no_designator_naive [OF assms(2)]
  by (simp add: home_ok [OF assms(1)] utcoffset_def naive_def)

theorem home_timestamp_naive_witness:
  "wall_clock \<lparr>wall_clock = Inr \<lparr>year = 2024, month = 2, day = 29, hour = 23, minute = 59,
        second = 58, microsecond = 0\<rparr>, other_state = ()\<rparr> =
     Inr \<lparr>year = 2024, month = 2, day = 29, hour = 23, minute = 59, second = 58,
        microsecond = 0\<rparr> \<and>
   valid_clock \<lparr>year = 2024, month = 2, day = 29, hour = 23, minute = 59, second = 58,
        microsecond = 0\<rparr> \<and>
   (\<exists>resp ts. fst (home \<lparr>http_method = ''GET'', path = ''/'', headers = [], content = []\<rparr>
        \<lparr>wall_clock = Inr \<lparr>year = 2024, month = 2, day = 29, hour = 23, minute = 59,
           second = 58, microsecond = 0\<rparr>, other_state = ()\<rparr>) = Inr resp \<and>
      json_get ''timestamp'' (body resp) = Some (JString ts) \<and> \<not> has_tz_designator ts)"
proof -
  let ?c = "\<lparr>year = 2024, month = 2, day = 29, hour = 23, minute = 59, second = 58,
    microsecond = 0\<rparr> :: clock"
  let ?w = "\<lparr>wall_clock = Inr ?c, other_state = ()\<rparr>"
  have h: "wall_clock ?w = Inr ?c" by simp
  have v: "valid_clock ?c" by (simp add: valid_clock_eval)
  from home_timestamp_naive [OF h v,
      of "\<lparr>http_method = ''GET'', path = ''/'', headers = [], content = []\<rparr>"]
  show ?thesis using h v by blast
qed

end
